theory Spec2Isabelle
  imports Complex_Main
begin

section \<open>Python values, dictionaries and exceptions\<close>

text \<open>
  The packet dictionaries of \<^verbatim>\<open>realtime/packet_sniffer.py\<close> map string keys to
  dynamically typed values. The values modelled here are \<^verbatim>\<open>None\<close>, \<^verbatim>\<open>bool\<close>,
  \<^verbatim>\<open>int\<close>, finite \<^verbatim>\<open>float\<close> (as a real number: rounding, infinities and NaN are
  left out) and \<^verbatim>\<open>str\<close> (ASCII text); containers and user objects as field values
  are left out. A missing key is \<open>None\<close> of the map.
\<close>

datatype pyval = PNone | PBool bool | PInt int | PFloat real | PStr string

type_synonym pydict = "string \<rightharpoonup> pyval"

datatype exn_kind =
  TypeError | ValueError | OverflowError | OSError | AttributeError | ImportError | RuntimeError

datatype exn = Exn exn_kind string

text \<open>\<^verbatim>\<open>d.get(k, default)\<close>; the one-argument form \<^verbatim>\<open>d.get(k)\<close> has default \<^verbatim>\<open>None\<close>.\<close>

definition dict_get :: "pydict \<Rightarrow> string \<Rightarrow> pyval \<Rightarrow> pyval" where
  "dict_get d k dflt = (case d k of None \<Rightarrow> dflt | Some v \<Rightarrow> v)"

text \<open>Truth value testing, as \<^verbatim>\<open>if x\<close>, \<^verbatim>\<open>not x\<close> and \<^verbatim>\<open>x or y\<close> apply it.\<close>

fun truthy :: "pyval \<Rightarrow> bool" where
  "truthy PNone = False"
| "truthy (PBool b) = b"
| "truthy (PInt n) = (n \<noteq> 0)"
| "truthy (PFloat r) = (r \<noteq> 0)"
| "truthy (PStr s) = (s \<noteq> [])"

definition py_or :: "pyval \<Rightarrow> pyval \<Rightarrow> pyval" where
  "py_or a b = (if truthy a then a else b)"

text \<open>
  What the interpreter and the platform decide, taken as parameters: the local time
  zone and the range of \<^verbatim>\<open>datetime.fromtimestamp\<close> on a number, the \<^verbatim>\<open>repr\<close>
  of a float, and \<^verbatim>\<open>int()\<close> on a string (\<open>None\<close> where it raises ValueError).
\<close>

record datetime =
  hour :: nat
  minute :: nat
  second :: nat
  microsecond :: nat

record runtime =
  localtime :: "real \<Rightarrow> exn + datetime"
  float_repr :: "real \<Rightarrow> string"
  int_of_str :: "string \<Rightarrow> int option"

definition digit_char :: "nat \<Rightarrow> char" where
  "digit_char n = char_of (48 + n)"

function nat_repr :: "nat \<Rightarrow> string" where
  "nat_repr n = (if n < 10 then [digit_char n] else nat_repr (n div 10) @ [digit_char (n mod 10)])"
  by pat_completeness auto
termination
  by (relation "measure id") auto

declare nat_repr.simps [simp del]

definition int_repr :: "int \<Rightarrow> string" where
  "int_repr i = (if i < 0 then CHR ''-'' # nat_repr (nat (- i)) else nat_repr (nat i))"

text \<open>\<^verbatim>\<open>str(x)\<close>.\<close>

fun py_str :: "runtime \<Rightarrow> pyval \<Rightarrow> string" where
  "py_str rt PNone = ''None''"
| "py_str rt (PBool b) = (if b then ''True'' else ''False'')"
| "py_str rt (PInt n) = int_repr n"
| "py_str rt (PFloat r) = float_repr rt r"
| "py_str rt (PStr s) = s"

text \<open>\<^verbatim>\<open>int(x)\<close>: a float is truncated towards zero, \<^verbatim>\<open>None\<close> is a TypeError.\<close>

fun py_int :: "runtime \<Rightarrow> pyval \<Rightarrow> exn + int" where
  "py_int rt PNone = Inl (Exn TypeError ''int() argument must be a string, a bytes-like object or a real number'')"
| "py_int rt (PBool b) = Inr (if b then 1 else 0)"
| "py_int rt (PInt n) = Inr n"
| "py_int rt (PFloat r) = Inr (if 0 \<le> r then \<lfloor>r\<rfloor> else \<lceil>r\<rceil>)"
| "py_int rt (PStr s) =
     (case int_of_str rt s of
        None \<Rightarrow> Inl (Exn ValueError ''invalid literal for int() with base 10'')
      | Some n \<Rightarrow> Inr n)"

text \<open>\<^verbatim>\<open>s.upper()\<close> on ASCII text and the substring test \<^verbatim>\<open>sub in s\<close>.\<close>

definition upper_char :: "char \<Rightarrow> char" where
  "upper_char c =
     (let n = (of_char c :: nat) in if 97 \<le> n \<and> n \<le> 122 then char_of (n - 32) else c)"

definition upper :: "string \<Rightarrow> string" where
  "upper s = map upper_char s"

fun py_in :: "string \<Rightarrow> string \<Rightarrow> bool" where
  "py_in sub [] = (sub = [])"
| "py_in sub (c # cs) = (take (length sub) (c # cs) = sub \<or> py_in sub cs)"

section \<open>realtime/feature\_extractor.py\<close>

text \<open>
  \<^verbatim>\<open>datetime.datetime.fromtimestamp(ts)\<close>: a number (a bool is an int) is converted
  by the platform, which raises outside its range; anything else is a TypeError.
\<close>

fun fromtimestamp :: "runtime \<Rightarrow> pyval \<Rightarrow> exn + datetime" where
  "fromtimestamp rt (PInt n) = localtime rt (real_of_int n)"
| "fromtimestamp rt (PBool b) = localtime rt (if b then 1 else 0)"
| "fromtimestamp rt (PFloat r) = localtime rt r"
| "fromtimestamp rt (PStr s) = Inl (Exn TypeError ''an integer is required (got type str)'')"
| "fromtimestamp rt PNone = Inl (Exn TypeError ''an integer is required (got type NoneType)'')"

definition normalize_time_of_day :: "runtime \<Rightarrow> pyval \<Rightarrow> exn + real" where
  "normalize_time_of_day rt ts =
     (case fromtimestamp rt ts of
        Inl e \<Rightarrow> Inl e
      | Inr dt \<Rightarrow>
          Inr (real (hour dt) * 3600 + real (minute dt) * 60 + real (second dt)
               + real (microsecond dt) / 1000000))"

definition normalize_protocol :: "runtime \<Rightarrow> pyval \<Rightarrow> string" where
  "normalize_protocol rt proto_raw =
     (if \<not> truthy proto_raw then ''OTHER''
      else let p = upper (py_str rt proto_raw) in
        if py_in ''TCP'' p then ''TCP''
        else if py_in ''UDP'' p then ''UDP''
        else if py_in ''ICMP'' p then ''ICMP''
        else ''OTHER'')"

text \<open>\<^verbatim>\<open>safe_int\<close> catches every exception of \<^verbatim>\<open>int(x)\<close>.\<close>

definition safe_int :: "runtime \<Rightarrow> pyval \<Rightarrow> int \<Rightarrow> int" where
  "safe_int rt x dflt = (case py_int rt x of Inl e \<Rightarrow> dflt | Inr n \<Rightarrow> n)"

text \<open>
  The feature dict has a fixed set of keys, so it is a record. The addresses are passed
  through as they are found; \<open>now\<close> is the reading of \<^verbatim>\<open>time.time()\<close> that serves as
  the default timestamp.
\<close>

record features =
  src_ip :: pyval
  dst_ip :: pyval
  src_port :: int
  dst_port :: int
  protocol :: string
  pkt_length :: int
  tcp_flags :: string
  time_of_day :: real

definition extract_features :: "runtime \<Rightarrow> real \<Rightarrow> pydict \<Rightarrow> exn + features" where
  "extract_features rt now pkt =
     (let f_src_ip = dict_get pkt ''src_ip'' (PStr ''0.0.0.0'');
          f_dst_ip = dict_get pkt ''dst_ip'' (PStr ''0.0.0.0'');
          f_src_port = safe_int rt (dict_get pkt ''src_port'' (PInt 0)) 0;
          f_dst_port = safe_int rt (dict_get pkt ''dst_port'' (PInt 0)) 0;
          f_protocol = normalize_protocol rt (dict_get pkt ''protocol'' PNone);
          f_length = safe_int rt (dict_get pkt ''length'' (PInt 0)) 0;
          f_tcp_flags =
            (if truthy (dict_get pkt ''tcp_flags'' PNone)
             then py_str rt (dict_get pkt ''tcp_flags'' (PStr '''')) else '''')
      in case normalize_time_of_day rt (dict_get pkt ''timestamp'' (PFloat now)) of
           Inl e \<Rightarrow> Inl e
         | Inr tod \<Rightarrow>
             Inr \<lparr>src_ip = f_src_ip, dst_ip = f_dst_ip, src_port = f_src_port,
                  dst_port = f_dst_port, protocol = f_protocol, pkt_length = f_length,
                  tcp_flags = f_tcp_flags, time_of_day = tod\<rparr>)"

section \<open>realtime/detection\_engine.py\<close>

text \<open>
  The engine calls three functions that are not its own: the classifier
  \<^verbatim>\<open>Detector.predict_proba\<close> (a fitted scikit-learn pipeline) and the two functions of
  \<^verbatim>\<open>realtime/mitigation.py\<close>. They are parameters: each returns or raises, and the
  mitigation functions, which keep a blocklist file, may answer according to the calls
  made so far.
\<close>

datatype call = PredictProba features | AddToBlocklist pyval | ApplyBlock pyval string

record env =
  predict_proba :: "features \<Rightarrow> exn + real"
  add_to_blocklist :: "call list \<Rightarrow> pyval \<Rightarrow> exn + unit"
  apply_block :: "call list \<Rightarrow> pyval \<Rightarrow> string \<Rightarrow> exn + pyval"

text \<open>
  An entry of \<^verbatim>\<open>logs/alerts.log\<close> is the dict handed to \<^verbatim>\<open>_log_alert\<close>: the
  sniffer-error dict or the alert dict of a detection. The \<^verbatim>\<open>strftime\<close> prefix of
  the line is not modelled, and neither is a failure of the file system.
\<close>

datatype alert =
  SnifferError (msg: pyval)
| Alert (alert_src_ip: pyval) (alert_dst_ip: pyval) (probability: real)
    (alert_features: features) (mitigation_cmd: pyval)

record engine =
  threshold :: real
  mitigation_mode :: string

text \<open>What the consumer has done so far: the lines of the log and the external calls, in order.\<close>

record state =
  alerts_log :: "alert list"
  calls :: "call list"

definition log_alert :: "alert \<Rightarrow> state \<Rightarrow> state" where
  "log_alert a st = st\<lparr>alerts_log := alerts_log st @ [a]\<rparr>"

definition record_call :: "call \<Rightarrow> state \<Rightarrow> state" where
  "record_call c st = st\<lparr>calls := calls st @ [c]\<rparr>"

text \<open>
  \<^verbatim>\<open>_handle_mitigation\<close>: the target is \<^verbatim>\<open>src_ip or dst_ip\<close>, and both mitigation
  functions are called with it, whatever it is. An exception of either leaves the method.
\<close>

definition handle_mitigation ::
  "env \<Rightarrow> engine \<Rightarrow> features \<Rightarrow> real \<Rightarrow> state \<Rightarrow> (exn + pyval) \<times> state" where
  "handle_mitigation ev eng feats prob st =
     (let ip = py_or (src_ip feats) (dst_ip feats);
          st1 = record_call (AddToBlocklist ip) st
      in case add_to_blocklist ev (calls st) ip of
           Inl e \<Rightarrow> (Inl e, st1)
         | Inr u \<Rightarrow>
             (let st2 = record_call (ApplyBlock ip (mitigation_mode eng)) st1
              in case apply_block ev (calls st1) ip (mitigation_mode eng) of
                   Inl e \<Rightarrow> (Inl e, st2)
                 | Inr cmd \<Rightarrow> (Inr cmd, st2)))"

text \<open>
  An item of the queue is a dict or some other object (\<open>Obj PNone\<close> is \<^verbatim>\<open>None\<close>).
  \<open>loop_body\<close> is the body of the \<^verbatim>\<open>while\<close> loop of \<^verbatim>\<open>_run\<close> after a successful
  \<^verbatim>\<open>get\<close>: it ends at the bottom of the loop or at a \<^verbatim>\<open>continue\<close> (\<open>Continue\<close>),
  or an exception leaves it (\<open>Raised\<close>); nothing in \<^verbatim>\<open>_run\<close> catches one.
\<close>

datatype item = Dict pydict | Obj pyval

datatype outcome = Continue state | Raised exn state

fun outcome_state :: "outcome \<Rightarrow> state" where
  "outcome_state (Continue st) = st"
| "outcome_state (Raised e st) = st"

definition detect :: "env \<Rightarrow> engine \<Rightarrow> features \<Rightarrow> state \<Rightarrow> outcome" where
  "detect ev eng feats st =
     (let st1 = record_call (PredictProba feats) st
      in case predict_proba ev feats of
           Inl e \<Rightarrow> Raised e st1
         | Inr prob \<Rightarrow>
             if threshold eng \<le> prob then
               (case handle_mitigation ev eng feats prob st1 of
                  (Inl e, st2) \<Rightarrow> Raised e st2
                | (Inr cmd, st2) \<Rightarrow>
                    Continue (log_alert (Alert (src_ip feats) (dst_ip feats) prob feats cmd) st2))
             else Continue st1)"

definition loop_body :: "env \<Rightarrow> runtime \<Rightarrow> engine \<Rightarrow> real \<Rightarrow> item \<Rightarrow> state \<Rightarrow> outcome" where
  "loop_body ev rt eng now pkt st =
     (case pkt of
        Obj PNone \<Rightarrow> Continue st
      | Obj v \<Rightarrow> Raised (Exn AttributeError ''object has no attribute get'') st
      | Dict d \<Rightarrow>
          if truthy (dict_get d ''__error__'' PNone)
          then Continue (log_alert (SnifferError (dict_get d ''__error__'' PNone)) st)
          else (case extract_features rt now d of
                  Inl e \<Rightarrow> Raised e st
                | Inr feats \<Rightarrow> detect ev eng feats st))"

text \<open>
  A \<^verbatim>\<open>threading.Event\<close> is set at some moment and never cleared (no code of the
  repository calls \<^verbatim>\<open>clear\<close>): it is the time it was set at, if any, and reading it at
  time \<open>t\<close> says whether that time has come. Time is \<^verbatim>\<open>time.time()\<close>, in seconds.
\<close>

type_synonym event = "real option"

definition is_set :: "event \<Rightarrow> real \<Rightarrow> bool" where
  "is_set ev t = (case ev of None \<Rightarrow> False | Some s \<Rightarrow> s \<le> t)"

definition set_event :: "real \<Rightarrow> event \<Rightarrow> event" where
  "set_event t ev = (case ev of None \<Rightarrow> Some t | Some s \<Rightarrow> Some (min s t))"

text \<open>\<^verbatim>\<open>DetectionEngine.stop\<close>, called at time \<open>t\<close>.\<close>

definition DetectionEngine_stop :: "real \<Rightarrow> event \<Rightarrow> event" where
  "DetectionEngine_stop t stop_event = set_event t stop_event"

text \<open>
  What \<^verbatim>\<open>self.in_q.get(timeout=1.0)\<close> does depends on the producer thread, so each
  call of it is given: \<open>Empty\<close>, raised after the whole timeout, or \<open>Got w pkt d\<close>, an
  item returned after \<open>w\<close> seconds whose handling then takes \<open>d\<close> seconds.
\<close>

datatype recv = Empty | Got real item real

definition get_timeout :: real where
  "get_timeout = 1"

text \<open>
  \<^verbatim>\<open>DetectionEngine._run\<close>, started at time \<open>t\<close>. The thread ends when the loop sees
  the event set (\<open>Exited\<close>, with the calls of \<^verbatim>\<open>get\<close> it never made) or when an exception
  leaves the loop (\<open>Crashed\<close>); \<open>Waiting\<close> is a loop still inside \<^verbatim>\<open>get\<close> when the
  given calls are used up.
\<close>

datatype run_result =
  Exited real state "recv list"
| Crashed exn real state "recv list"
| Waiting real state

fun DetectionEngine_run ::
  "env \<Rightarrow> runtime \<Rightarrow> engine \<Rightarrow> event \<Rightarrow> real \<Rightarrow> state \<Rightarrow> recv list \<Rightarrow> run_result" where
  "DetectionEngine_run ev rt eng stop_event t st [] =
     (if is_set stop_event t then Exited t st [] else Waiting t st)"
| "DetectionEngine_run ev rt eng stop_event t st (r # rest) =
     (if is_set stop_event t then Exited t st (r # rest)
      else case r of
        Empty \<Rightarrow> DetectionEngine_run ev rt eng stop_event (t + get_timeout) st rest
      | Got w pkt d \<Rightarrow>
          (case loop_body ev rt eng (t + w) pkt st of
             Raised e st' \<Rightarrow> Crashed e (t + w + d) st' rest
           | Continue st' \<Rightarrow> DetectionEngine_run ev rt eng stop_event (t + w + d) st' rest))"

fun result_state :: "run_result \<Rightarrow> state" where
  "result_state (Exited t st rest) = st"
| "result_state (Crashed e t st rest) = st"
| "result_state (Waiting t st) = st"

fun received :: "recv list \<Rightarrow> item list" where
  "received [] = []"
| "received (Empty # rest) = received rest"
| "received (Got w pkt d # rest) = pkt # received rest"

fun classifier_calls :: "call list \<Rightarrow> nat" where
  "classifier_calls [] = 0"
| "classifier_calls (PredictProba f # cs) = Suc (classifier_calls cs)"
| "classifier_calls (c # cs) = classifier_calls cs"

fun mitigation_calls :: "call list \<Rightarrow> nat" where
  "mitigation_calls [] = 0"
| "mitigation_calls (PredictProba f # cs) = mitigation_calls cs"
| "mitigation_calls (c # cs) = Suc (mitigation_calls cs)"

section \<open>The queue of main\<close>

text \<open>
  \<^verbatim>\<open>queue.Queue(maxsize=0)\<close> of the standard library: the queue is full when
  \<^verbatim>\<open>0 < maxsize <= qsize\<close>, and \<^verbatim>\<open>put\<close> waits while it is full (\<open>None\<close> here: the
  caller is blocked). \<^verbatim>\<open>main\<close> creates the queue of the pipeline with no argument.
\<close>

record queue =
  maxsize :: int
  queued :: "item list"

definition Queue :: "int \<Rightarrow> queue" where
  "Queue m = \<lparr>maxsize = m, queued = []\<rparr>"

definition full :: "queue \<Rightarrow> bool" where
  "full q = (0 < maxsize q \<and> maxsize q \<le> int (length (queued q)))"

definition put :: "queue \<Rightarrow> item \<Rightarrow> queue option" where
  "put q x = (if full q then None else Some (q\<lparr>queued := queued q @ [x]\<rparr>))"

fun put_all :: "queue \<Rightarrow> item list \<Rightarrow> queue option" where
  "put_all q [] = Some q"
| "put_all q (x # xs) = (case put q x of None \<Rightarrow> None | Some q' \<Rightarrow> put_all q' xs)"

definition pkt_q :: queue where
  "pkt_q = Queue 0"

section \<open>realtime/packet\_sniffer.py\<close>

text \<open>
  \<^verbatim>\<open>_make_synthetic_packet\<close> draws from \<^verbatim>\<open>random\<close> and reads the clock; the draws are
  given. \<^verbatim>\<open>random.choice\<close> picks an element of a non-empty list by an index in range.
\<close>

record draws =
  src_host :: int
  dst_host :: int
  src_port_draw :: int
  dst_port_choice :: nat
  dst_port_draw :: int
  protocol_choice :: nat
  length_draw :: int
  tcp_flags_choice :: nat
  stamp :: real

definition choice :: "'a list \<Rightarrow> nat \<Rightarrow> 'a" where
  "choice xs k = xs ! (k mod length xs)"

definition make_synthetic_packet :: "draws \<Rightarrow> pydict" where
  "make_synthetic_packet dr =
     (let protocols = [''TCP'', ''UDP'', ''ICMP'', ''OTHER''];
          flag_list = ['''', ''S'', ''A'', ''F'', ''P'', ''R'']
      in [''src_ip'' \<mapsto> PStr (''192.0.2.'' @ int_repr (src_host dr)),
          ''dst_ip'' \<mapsto> PStr (''198.51.100.'' @ int_repr (dst_host dr)),
          ''src_port'' \<mapsto> PInt (src_port_draw dr),
          ''dst_port'' \<mapsto> PInt (choice [22, 80, 443, 8080, dst_port_draw dr] (dst_port_choice dr)),
          ''protocol'' \<mapsto> PStr (choice protocols (protocol_choice dr)),
          ''length'' \<mapsto> PInt (length_draw dr),
          ''tcp_flags'' \<mapsto> PStr (choice flag_list (tcp_flags_choice dr)),
          ''timestamp'' \<mapsto> PFloat (stamp dr)])"

text \<open>
  What the producer thread has put into \<^verbatim>\<open>out_q\<close>, in order, when it has returned, when
  an exception has ended it, or while it is still in its loop (the given draws used up).
\<close>

datatype sniff_result = Returned "item list" | Died exn "item list" | Running "item list"

fun sniffed :: "sniff_result \<Rightarrow> item list" where
  "sniffed (Returned xs) = xs"
| "sniffed (Died e xs) = xs"
| "sniffed (Running xs) = xs"

text \<open>The loop of the simulate mode: one packet, then \<^verbatim>\<open>time.sleep(0.05)\<close>.\<close>

fun simulate_loop :: "event \<Rightarrow> real \<Rightarrow> item list \<Rightarrow> draws list \<Rightarrow> sniff_result" where
  "simulate_loop stop_event t out [] =
     (if is_set stop_event t then Returned out else Running out)"
| "simulate_loop stop_event t out (dr # rest) =
     (if is_set stop_event t then Returned out
      else simulate_loop stop_event (t + 5 / 100) (out @ [Dict (make_synthetic_packet dr)]) rest)"

text \<open>
  A packet as scapy parsed it: its IP layer, if it has one (\<^verbatim>\<open>getlayer(IP)\<close> is
  \<^verbatim>\<open>None\<close> otherwise), its TCP and UDP layers, whether it has an ICMP layer, and its
  length. The library itself is a parameter: whether it can be imported, what
  \<^verbatim>\<open>rdpcap\<close> returns or raises, and which packets \<^verbatim>\<open>sniff\<close> hands to its callback
  before it returns or raises.
\<close>

record ip_layer =
  ip_src :: string
  ip_dst :: string

record tcp_layer =
  tcp_sport :: int
  tcp_dport :: int
  tcp_flag_str :: "string option"

record udp_layer =
  udp_sport :: int
  udp_dport :: int

record scapy_packet =
  layer_IP :: "ip_layer option"
  layer_TCP :: "tcp_layer option"
  layer_UDP :: "udp_layer option"
  layer_ICMP :: bool
  wire_len :: nat

record scapy =
  import_scapy :: "exn option"
  rdpcap :: "string \<Rightarrow> exn + scapy_packet list"
  sniff :: "string \<Rightarrow> scapy_packet list \<times> exn option"

text \<open>
  \<^verbatim>\<open>_scapy_to_dict\<close>: any exception inside it, such as reading \<^verbatim>\<open>ip.src\<close> of a
  packet with no IP layer, makes it return \<^verbatim>\<open>None\<close>.
\<close>

definition scapy_to_dict :: "real \<Rightarrow> scapy_packet \<Rightarrow> pydict option" where
  "scapy_to_dict now p =
     (let (proto, sport, dport, flags) =
            (case layer_TCP p of
               Some t \<Rightarrow>
                 (''TCP'', PInt (tcp_sport t), PInt (tcp_dport t),
                  (case tcp_flag_str t of Some f \<Rightarrow> f | None \<Rightarrow> ''''))
             | None \<Rightarrow>
                 (case layer_UDP p of
                    Some u \<Rightarrow> (''UDP'', PInt (udp_sport u), PInt (udp_dport u), '''')
                  | None \<Rightarrow>
                      if layer_ICMP p then (''ICMP'', PNone, PNone, '''')
                      else (''OTHER'', PNone, PNone, '''')))
      in case layer_IP p of
           None \<Rightarrow> None
         | Some ip \<Rightarrow>
             Some [''src_ip'' \<mapsto> PStr (ip_src ip),
                   ''dst_ip'' \<mapsto> PStr (ip_dst ip),
                   ''src_port'' \<mapsto> py_or sport (PInt 0),
                   ''dst_port'' \<mapsto> py_or dport (PInt 0),
                   ''protocol'' \<mapsto> PStr proto,
                   ''length'' \<mapsto> PInt (int (wire_len p)),
                   ''tcp_flags'' \<mapsto> PStr flags,
                   ''timestamp'' \<mapsto> PFloat now])"

text \<open>
  The loop of the pcap mode; \<open>clock i\<close> is the time of its \<open>i\<close>-th iteration. A dict of
  \<^verbatim>\<open>_scapy_to_dict\<close> has eight keys, so \<^verbatim>\<open>if d\<close> only fails on \<^verbatim>\<open>None\<close>.
\<close>

fun pcap_loop :: "event \<Rightarrow> (nat \<Rightarrow> real) \<Rightarrow> nat \<Rightarrow> scapy_packet list \<Rightarrow> item list" where
  "pcap_loop stop_event clock i [] = []"
| "pcap_loop stop_event clock i (p # ps) =
     (if is_set stop_event (clock i) then []
      else case scapy_to_dict (clock i) p of
             None \<Rightarrow> pcap_loop stop_event clock (Suc i) ps
           | Some d \<Rightarrow> Dict d # pcap_loop stop_event clock (Suc i) ps)"

text \<open>The callback of the live mode, on the packets scapy hands to it.\<close>

fun live_callbacks :: "(nat \<Rightarrow> real) \<Rightarrow> nat \<Rightarrow> scapy_packet list \<Rightarrow> item list" where
  "live_callbacks clock i [] = []"
| "live_callbacks clock i (p # ps) =
     (case scapy_to_dict (clock i) p of
        None \<Rightarrow> live_callbacks clock (Suc i) ps
      | Some d \<Rightarrow> Dict d # live_callbacks clock (Suc i) ps)"

fun exn_msg :: "exn \<Rightarrow> string" where
  "exn_msg (Exn k m) = m"

definition error_item :: "string \<Rightarrow> item" where
  "error_item m = Dict [''__error__'' \<mapsto> PStr m]"

fun falsy_str :: "string option \<Rightarrow> bool" where
  "falsy_str None = True"
| "falsy_str (Some s) = (s = [])"

fun str_of :: "string option \<Rightarrow> string" where
  "str_of None = []"
| "str_of (Some s) = s"

text \<open>The thread function \<^verbatim>\<open>_run\<close> of \<^verbatim>\<open>start_sniff\<close>.\<close>

definition start_sniff_run ::
  "scapy \<Rightarrow> string \<Rightarrow> string option \<Rightarrow> string option \<Rightarrow> event \<Rightarrow> (nat \<Rightarrow> real) \<Rightarrow> draws list
   \<Rightarrow> sniff_result" where
  "start_sniff_run sc mode iface pcap stop_event clock dws =
     (if mode = ''simulate'' then simulate_loop stop_event (clock 0) [] dws
      else case import_scapy sc of
        Some e \<Rightarrow> Returned [error_item (''scapy not available: '' @ exn_msg e)]
      | None \<Rightarrow>
          if mode = ''pcap'' then
            (if falsy_str pcap
             then Returned [error_item ''pcap mode selected but no pcap path provided'']
             else case rdpcap sc (str_of pcap) of
                    Inl e \<Rightarrow> Returned [error_item (''failed to read pcap: '' @ exn_msg e)]
                  | Inr packets \<Rightarrow> Returned (pcap_loop stop_event clock 0 packets))
          else if mode = ''live'' then
            (if falsy_str iface then Returned [error_item ''live mode requires iface'']
             else case sniff sc (str_of iface) of
                    (packets, None) \<Rightarrow> Returned (live_callbacks clock 0 packets)
                  | (packets, Some e) \<Rightarrow> Died e (live_callbacks clock 0 packets))
          else Returned [])"

section \<open>Concrete instances\<close>

text \<open>
  A platform, a classifier, a mitigation module and packets to run the definitions on.
  The platform keeps UTC and accepts the timestamps of the years 1970 to 9999; its float
  \<^verbatim>\<open>repr\<close> and its \<^verbatim>\<open>int()\<close> on strings are stand-ins that no instance below
  exercises.
\<close>

definition utc_localtime :: "real \<Rightarrow> exn + datetime" where
  "utc_localtime r =
     (if 0 \<le> r \<and> r < 253402300800 then
        Inr \<lparr>hour = nat (\<lfloor>r\<rfloor> mod 86400 div 3600), minute = nat (\<lfloor>r\<rfloor> mod 3600 div 60),
             second = nat (\<lfloor>r\<rfloor> mod 60), microsecond = nat \<lfloor>(r - of_int \<lfloor>r\<rfloor>) * 1000000\<rfloor>\<rparr>
      else Inl (Exn OverflowError ''timestamp out of range for platform time_t''))"

definition utc_runtime :: runtime where
  "utc_runtime =
     \<lparr>localtime = utc_localtime, float_repr = (\<lambda>r. ''0.0''), int_of_str = (\<lambda>s. None)\<rparr>"

text \<open>
  The classifier stub of the specification's scenario A: 0.9 for destination port 4444
  and 0.1 otherwise; a mitigation module whose calls return; and the same with a
  classifier that raises, or with an \<^verbatim>\<open>apply_block\<close> that raises.
\<close>

definition stub_classifier :: "features \<Rightarrow> exn + real" where
  "stub_classifier f = Inr (if dst_port f = 4444 then 9 / 10 else 1 / 10)"

definition stub_env :: env where
  "stub_env =
     \<lparr>predict_proba = stub_classifier,
      add_to_blocklist = (\<lambda>h ip. Inr ()),
      apply_block = (\<lambda>h ip mode. Inr (PStr ''iptables -A INPUT -j DROP''))\<rparr>"

definition raising_classifier_env :: env where
  "raising_classifier_env =
     stub_env\<lparr>predict_proba := (\<lambda>f. Inl (Exn RuntimeError ''model failure''))\<rparr>"

definition raising_mitigation_env :: env where
  "raising_mitigation_env =
     stub_env\<lparr>apply_block := (\<lambda>h ip mode. Inl (Exn OSError ''iptables not found''))\<rparr>"

definition demo_engine :: engine where
  "demo_engine = \<lparr>threshold = 3 / 4, mitigation_mode = ''dry-run''\<rparr>"

definition empty_state :: state where
  "empty_state = \<lparr>alerts_log = [], calls = []\<rparr>"

definition pkt_4444 :: pydict where
  "pkt_4444 =
     [''src_ip'' \<mapsto> PStr ''192.0.2.7'', ''dst_ip'' \<mapsto> PStr ''198.51.100.9'',
      ''src_port'' \<mapsto> PInt 52344, ''dst_port'' \<mapsto> PInt 4444, ''protocol'' \<mapsto> PStr ''TCP'',
      ''length'' \<mapsto> PInt 100, ''tcp_flags'' \<mapsto> PStr ''S'', ''timestamp'' \<mapsto> PFloat 3600]"

definition features_4444 :: features where
  "features_4444 =
     \<lparr>src_ip = PStr ''192.0.2.7'', dst_ip = PStr ''198.51.100.9'', src_port = 52344,
      dst_port = 4444, protocol = ''TCP'', pkt_length = 100, tcp_flags = ''S'',
      time_of_day = 3600\<rparr>"

definition pkt_80 :: pydict where
  "pkt_80 = pkt_4444(''dst_port'' \<mapsto> PInt 80)"

definition features_80 :: features where
  "features_80 = features_4444\<lparr>dst_port := 80\<rparr>"

text \<open>A packet that carries both address keys with values that are not addresses.\<close>

definition pkt_no_address :: pydict where
  "pkt_no_address = pkt_4444(''src_ip'' \<mapsto> PNone, ''dst_ip'' \<mapsto> PStr '''')"

definition features_no_address :: features where
  "features_no_address = features_4444\<lparr>src_ip := PNone, dst_ip := PStr ''''\<rparr>"

text \<open>An ARP frame has no IP layer; a TCP segment over IPv4 has one.\<close>

definition arp_frame :: scapy_packet where
  "arp_frame =
     \<lparr>layer_IP = None, layer_TCP = None, layer_UDP = None, layer_ICMP = False, wire_len = 42\<rparr>"

definition tcp_segment :: scapy_packet where
  "tcp_segment =
     \<lparr>layer_IP = Some \<lparr>ip_src = ''192.0.2.7'', ip_dst = ''198.51.100.9''\<rparr>,
      layer_TCP = Some \<lparr>tcp_sport = 52344, tcp_dport = 4444, tcp_flag_str = Some ''S''\<rparr>,
      layer_UDP = None, layer_ICMP = False, wire_len = 100\<rparr>"

definition capture_library :: "scapy_packet list \<Rightarrow> scapy" where
  "capture_library packets =
     \<lparr>import_scapy = None,
      rdpcap = (\<lambda>path. if path = ''capture.pcap'' then Inr packets
                        else Inl (Exn OSError ''No such file or directory'')),
      sniff = (\<lambda>iface. ([], None))\<rparr>"

section \<open>Lemmas on the loop body\<close>

lemma extract_pkt_4444: "extract_features utc_runtime now pkt_4444 = Inr features_4444"
  by (simp add: extract_features_def pkt_4444_def features_4444_def dict_get_def safe_int_def
      normalize_protocol_def normalize_time_of_day_def utc_runtime_def utc_localtime_def
      upper_def upper_char_def)

lemma extract_pkt_80: "extract_features utc_runtime now pkt_80 = Inr features_80"
  by (simp add: extract_features_def pkt_80_def pkt_4444_def features_80_def features_4444_def
      dict_get_def safe_int_def normalize_protocol_def normalize_time_of_day_def utc_runtime_def
      utc_localtime_def upper_def upper_char_def)

lemma extract_pkt_no_address:
  "extract_features utc_runtime now pkt_no_address = Inr features_no_address"
  by (simp add: extract_features_def pkt_no_address_def pkt_4444_def features_no_address_def
      features_4444_def dict_get_def safe_int_def normalize_protocol_def normalize_time_of_day_def
      utc_runtime_def utc_localtime_def upper_def upper_char_def)

lemma no_error_key_pkt_4444: "\<not> truthy (dict_get pkt_4444 ''__error__'' PNone)"
  by (simp add: pkt_4444_def dict_get_def)

lemma no_error_key_pkt_80: "\<not> truthy (dict_get pkt_80 ''__error__'' PNone)"
  by (simp add: pkt_80_def pkt_4444_def dict_get_def)

lemma no_error_key_pkt_no_address: "\<not> truthy (dict_get pkt_no_address ''__error__'' PNone)"
  by (simp add: pkt_no_address_def pkt_4444_def dict_get_def)

lemma loop_body_packet:
  assumes "\<not> truthy (dict_get d ''__error__'' PNone)"
    and "extract_features rt now d = Inr f"
  shows "loop_body ev rt eng now (Dict d) st = detect ev eng f st"
  using assms by (simp add: loop_body_def)

lemma detect_below:
  assumes "predict_proba ev f = Inr p" and "p < threshold eng"
  shows "detect ev eng f st = Continue (st\<lparr>calls := calls st @ [PredictProba f]\<rparr>)"
  using assms by (simp add: detect_def record_call_def)

lemma detect_alert:
  assumes "predict_proba ev f = Inr p" and "threshold eng \<le> p"
    and "add_to_blocklist ev (calls st @ [PredictProba f]) (py_or (src_ip f) (dst_ip f)) = Inr u"
    and "apply_block ev (calls st @ [PredictProba f, AddToBlocklist (py_or (src_ip f) (dst_ip f))])
           (py_or (src_ip f) (dst_ip f)) (mitigation_mode eng) = Inr cmd"
  shows "detect ev eng f st =
           Continue \<lparr>alerts_log = alerts_log st @ [Alert (src_ip f) (dst_ip f) p f cmd],
                     calls = calls st @ [PredictProba f, AddToBlocklist (py_or (src_ip f) (dst_ip f)),
                        ApplyBlock (py_or (src_ip f) (dst_ip f)) (mitigation_mode eng)]\<rparr>"
  using assms by (simp add: detect_def handle_mitigation_def record_call_def log_alert_def Let_def)

section \<open>C1: an alert is logged when the probability reaches the threshold\<close>

text \<open>
  Claim C1, as the code has it. Take a packet dict without a truthy \<^verbatim>\<open>__error__\<close> entry
  for which feature extraction and the classifier return, the latter with probability
  \<open>p\<close>. If \<open>p\<close> is below the threshold, the only thing that happened is the classifier
  call: nothing is appended to the alert log and no mitigation call is made. If \<open>p\<close>
  reaches the threshold and both mitigation calls return, exactly one alert record, with
  the returned command, is appended to the log.
\<close>

theorem C1_alert_iff_threshold:
  assumes "\<not> truthy (dict_get d ''__error__'' PNone)"
    and "extract_features rt now d = Inr f"
    and "predict_proba ev f = Inr p"
  shows "(p < threshold eng \<longrightarrow>
            loop_body ev rt eng now (Dict d) st = Continue (st\<lparr>calls := calls st @ [PredictProba f]\<rparr>))
       \<and> (threshold eng \<le> p \<longrightarrow>
            add_to_blocklist ev (calls st @ [PredictProba f]) (py_or (src_ip f) (dst_ip f)) = Inr u \<longrightarrow>
            apply_block ev (calls st @ [PredictProba f, AddToBlocklist (py_or (src_ip f) (dst_ip f))])
              (py_or (src_ip f) (dst_ip f)) (mitigation_mode eng) = Inr cmd \<longrightarrow>
            loop_body ev rt eng now (Dict d) st =
              Continue \<lparr>alerts_log = alerts_log st @ [Alert (src_ip f) (dst_ip f) p f cmd],
                        calls = calls st @ [PredictProba f, AddToBlocklist (py_or (src_ip f) (dst_ip f)),
                          ApplyBlock (py_or (src_ip f) (dst_ip f)) (mitigation_mode eng)]\<rparr>)"
  using assms by (simp add: loop_body_packet detect_below detect_alert)

theorem C1_alert_iff_threshold_witness:
  "loop_body stub_env utc_runtime demo_engine 0 (Dict pkt_80) empty_state =
     Continue \<lparr>alerts_log = [], calls = [PredictProba features_80]\<rparr>
   \<and> loop_body stub_env utc_runtime demo_engine 0 (Dict pkt_4444) empty_state =
     Continue \<lparr>alerts_log = [Alert (PStr ''192.0.2.7'') (PStr ''198.51.100.9'') (9 / 10) features_4444
                    (PStr ''iptables -A INPUT -j DROP'')],
               calls = [PredictProba features_4444, AddToBlocklist (PStr ''192.0.2.7''),
                    ApplyBlock (PStr ''192.0.2.7'') ''dry-run'']\<rparr>"
proof -
  have lo: "predict_proba stub_env features_80 = Inr (1 / 10)"
    by (simp add: stub_env_def stub_classifier_def features_80_def features_4444_def)
  have hi: "predict_proba stub_env features_4444 = Inr (9 / 10)"
    by (simp add: stub_env_def stub_classifier_def features_4444_def)
  from C1_alert_iff_threshold [where eng = demo_engine and st = empty_state,
      OF no_error_key_pkt_80 extract_pkt_80 lo]
  have a: "loop_body stub_env utc_runtime demo_engine 0 (Dict pkt_80) empty_state =
     Continue \<lparr>alerts_log = [], calls = [PredictProba features_80]\<rparr>"
    by (simp add: demo_engine_def empty_state_def)
  from C1_alert_iff_threshold [where eng = demo_engine and st = empty_state and u = "()"
      and cmd = "PStr ''iptables -A INPUT -j DROP''", OF no_error_key_pkt_4444 extract_pkt_4444 hi]
  have b: "loop_body stub_env utc_runtime demo_engine 0 (Dict pkt_4444) empty_state =
     Continue \<lparr>alerts_log = [Alert (PStr ''192.0.2.7'') (PStr ''198.51.100.9'') (9 / 10) features_4444
                    (PStr ''iptables -A INPUT -j DROP'')],
               calls = [PredictProba features_4444, AddToBlocklist (PStr ''192.0.2.7''),
                    ApplyBlock (PStr ''192.0.2.7'') ''dry-run'']\<rparr>"
    by (simp add: demo_engine_def empty_state_def stub_env_def features_4444_def py_or_def)
  from a b show ?thesis by simp
qed

text \<open>
  The claim as stated fails when a mitigation call raises: \<^verbatim>\<open>_log_alert\<close> comes after
  \<^verbatim>\<open>_handle_mitigation\<close>, so the probability 0.9 reaches the threshold 0.75 and yet the
  log stays empty.
\<close>

theorem C1_counterexample:
  "predict_proba raising_mitigation_env features_4444 = Inr (9 / 10)
   \<and> threshold demo_engine \<le> 9 / 10
   \<and> loop_body raising_mitigation_env utc_runtime demo_engine 0 (Dict pkt_4444) empty_state =
       Raised (Exn OSError ''iptables not found'')
         \<lparr>alerts_log = [],
          calls = [PredictProba features_4444, AddToBlocklist (PStr ''192.0.2.7''),
                   ApplyBlock (PStr ''192.0.2.7'') ''dry-run'']\<rparr>"
  by (simp add: loop_body_packet [OF no_error_key_pkt_4444 extract_pkt_4444] detect_def
      handle_mitigation_def record_call_def log_alert_def raising_mitigation_env_def stub_env_def
      stub_classifier_def demo_engine_def empty_state_def features_4444_def py_or_def Let_def)

section \<open>Lemmas on the call trace\<close>

lemma mitigation_calls_classifier:
  "mitigation_calls (cs @ [PredictProba f]) = mitigation_calls cs"
  by (induction cs rule: mitigation_calls.induct) simp_all

section \<open>C2: feature extraction on a dict whose timestamp is not a number\<close>

text \<open>
  Claim C2 says that \<^verbatim>\<open>extract_features\<close> never raises, whatever the types of the
  fields. The ports and the length go through \<^verbatim>\<open>safe_int\<close>, but the timestamp goes to
  \<^verbatim>\<open>datetime.fromtimestamp\<close> unguarded: on the dict \<^verbatim>\<open>{"timestamp": "abc"}\<close> the call
  raises a TypeError, on every platform. The guards of the sibling fields are there: a
  port that \<^verbatim>\<open>int()\<close> rejects becomes 0 and a missing protocol becomes \<^verbatim>\<open>"OTHER"\<close>.
\<close>

theorem C2_timestamp_raises:
  "extract_features rt now [''timestamp'' \<mapsto> PStr ''abc''] =
     Inl (Exn TypeError ''an integer is required (got type str)'')
   \<and> safe_int rt PNone 0 = 0
   \<and> normalize_protocol rt PNone = ''OTHER''"
  by (simp add: extract_features_def dict_get_def normalize_time_of_day_def safe_int_def
      normalize_protocol_def)

section \<open>C3: a classifier that raises\<close>

text \<open>
  Claim C3, as the code has it. When the classifier raises on an observation, the
  exception leaves \<^verbatim>\<open>_run\<close>: the consumer loop ends with that exception, later items
  are not received, nothing is appended to the alert log (no diagnostic entry), and no
  mitigation call is made for the observation.
\<close>

theorem C3_classifier_exception_ends_loop:
  assumes "\<not> truthy (dict_get d ''__error__'' PNone)"
    and "extract_features rt (t + w) d = Inr f"
    and "predict_proba ev f = Inl e"
    and "\<not> is_set stop_event t"
  shows "DetectionEngine_run ev rt eng stop_event t st (Got w (Dict d) dur # rest) =
           Crashed e (t + w + dur) (st\<lparr>calls := calls st @ [PredictProba f]\<rparr>) rest
       \<and> alerts_log (st\<lparr>calls := calls st @ [PredictProba f]\<rparr>) = alerts_log st
       \<and> mitigation_calls (calls (st\<lparr>calls := calls st @ [PredictProba f]\<rparr>)) =
           mitigation_calls (calls st)"
  using assms
  by (simp add: loop_body_packet detect_def record_call_def mitigation_calls_classifier)

theorem C3_classifier_exception_ends_loop_witness:
  "DetectionEngine_run raising_classifier_env utc_runtime demo_engine None 0 empty_state
     [Got 0 (Dict pkt_80) 0, Empty] =
   Crashed (Exn RuntimeError ''model failure'') 0
     \<lparr>alerts_log = [], calls = [PredictProba features_80]\<rparr> [Empty]"
proof -
  have raises: "predict_proba raising_classifier_env features_80 =
      Inl (Exn RuntimeError ''model failure'')"
    by (simp add: raising_classifier_env_def)
  have running: "\<not> is_set None 0"
    by (simp add: is_set_def)
  have extr: "extract_features utc_runtime (0 + 0) pkt_80 = Inr features_80"
    by (rule extract_pkt_80)
  from C3_classifier_exception_ends_loop [where st = empty_state and eng = demo_engine
      and dur = 0 and rest = "[Empty]", OF no_error_key_pkt_80 extr raises running]
  show ?thesis
    by (simp add: empty_state_def)
qed

text \<open>
  The claim as stated fails: with a classifier that always raises and two packets in the
  queue, the loop ends at the first one, the log is empty and the second packet is never
  received.
\<close>

theorem C3_counterexample:
  "DetectionEngine_run raising_classifier_env utc_runtime demo_engine None 0 empty_state
     [Got 0 (Dict pkt_4444) 0, Got 0 (Dict pkt_80) 0] =
   Crashed (Exn RuntimeError ''model failure'') 0
     \<lparr>alerts_log = [], calls = [PredictProba features_4444]\<rparr> [Got 0 (Dict pkt_80) 0]"
  by (simp add: is_set_def loop_body_packet [OF no_error_key_pkt_4444 extract_pkt_4444]
      detect_def record_call_def raising_classifier_env_def empty_state_def)

section \<open>C5: the mitigation target\<close>

text \<open>
  Claim C5, as the code has it. For every observation whose probability reaches the
  threshold, the mitigation target is the source address when that is truthy and the
  destination address otherwise. \<^verbatim>\<open>add_to_blocklist\<close> is always called with the target,
  whatever it is; when it returns, \<^verbatim>\<open>apply_block\<close> is called with the target and the
  configured mode; and when that returns too, the logged alert carries the returned
  command. Nothing is skipped when neither address is usable.
\<close>

theorem C5_mitigation_target:
  assumes "\<not> truthy (dict_get d ''__error__'' PNone)"
    and "extract_features rt now d = Inr f"
    and "predict_proba ev f = Inr p"
    and "threshold eng \<le> p"
  shows "let target = (if truthy (src_ip f) then src_ip f else dst_ip f);
             r = loop_body ev rt eng now (Dict d) st
         in take (length (calls st) + 2) (calls (outcome_state r)) =
              calls st @ [PredictProba f, AddToBlocklist target]
          \<and> (add_to_blocklist ev (calls st @ [PredictProba f]) target = Inr u \<longrightarrow>
               calls (outcome_state r) =
                 calls st @ [PredictProba f, AddToBlocklist target,
                             ApplyBlock target (mitigation_mode eng)])
          \<and> (add_to_blocklist ev (calls st @ [PredictProba f]) target = Inr u \<longrightarrow>
             apply_block ev (calls st @ [PredictProba f, AddToBlocklist target]) target
               (mitigation_mode eng) = Inr cmd \<longrightarrow>
               alerts_log (outcome_state r) =
                 alerts_log st @ [Alert (src_ip f) (dst_ip f) p f cmd])"
  using assms
  by (auto simp add: loop_body_packet detect_def handle_mitigation_def record_call_def
      log_alert_def py_or_def Let_def split: sum.splits)

theorem C5_mitigation_target_witness:
  "take 2 (calls (outcome_state
       (loop_body stub_env utc_runtime demo_engine 0 (Dict pkt_4444) empty_state))) =
     [PredictProba features_4444, AddToBlocklist (PStr ''192.0.2.7'')]
   \<and> calls (outcome_state
       (loop_body stub_env utc_runtime demo_engine 0 (Dict pkt_4444) empty_state)) =
     [PredictProba features_4444, AddToBlocklist (PStr ''192.0.2.7''),
      ApplyBlock (PStr ''192.0.2.7'') ''dry-run'']
   \<and> alerts_log (outcome_state
       (loop_body stub_env utc_runtime demo_engine 0 (Dict pkt_4444) empty_state)) =
     [Alert (PStr ''192.0.2.7'') (PStr ''198.51.100.9'') (9 / 10) features_4444
        (PStr ''iptables -A INPUT -j DROP'')]"
proof -
  have hi: "predict_proba stub_env features_4444 = Inr (9 / 10)"
    by (simp add: stub_env_def stub_classifier_def features_4444_def)
  have reached: "threshold demo_engine \<le> 9 / 10"
    by (simp add: demo_engine_def)
  from C5_mitigation_target [where st = empty_state and u = "()"
      and cmd = "PStr ''iptables -A INPUT -j DROP''",
      OF no_error_key_pkt_4444 extract_pkt_4444 hi reached]
  show ?thesis
    by (simp add: Let_def empty_state_def stub_env_def demo_engine_def features_4444_def)
qed

text \<open>
  The claim as stated fails on a packet whose source address is \<^verbatim>\<open>None\<close> and whose
  destination address is the empty string: both mitigation functions are called, with
  the empty string, and the alert carries the command that \<^verbatim>\<open>apply_block\<close> returned.
\<close>

theorem C5_counterexample:
  "\<not> truthy (src_ip features_no_address) \<and> \<not> truthy (dst_ip features_no_address)
   \<and> loop_body stub_env utc_runtime demo_engine 0 (Dict pkt_no_address) empty_state =
       Continue
         \<lparr>alerts_log = [Alert PNone (PStr '''') (9 / 10) features_no_address
                          (PStr ''iptables -A INPUT -j DROP'')],
          calls = [PredictProba features_no_address, AddToBlocklist (PStr ''''),
                   ApplyBlock (PStr '''') ''dry-run'']\<rparr>"
  by (simp add: loop_body_packet [OF no_error_key_pkt_no_address extract_pkt_no_address]
      detect_def handle_mitigation_def record_call_def log_alert_def stub_env_def
      stub_classifier_def demo_engine_def empty_state_def features_no_address_def
      features_4444_def py_or_def Let_def)

section \<open>Lemmas on the consumer loop\<close>

lemma run_exits_when_set:
  "is_set stop_event t \<Longrightarrow> DetectionEngine_run ev rt eng stop_event t st sched = Exited t st sched"
  by (cases sched) simp_all

lemma run_continues:
  assumes "\<not> is_set stop_event t"
    and "loop_body ev rt eng (t + w) pkt st = Continue st'"
  shows "DetectionEngine_run ev rt eng stop_event t st (Got w pkt dur # rest) =
           DetectionEngine_run ev rt eng stop_event (t + w + dur) st' rest"
  using assms by simp

lemma run_crashes:
  assumes "\<not> is_set stop_event t"
    and "loop_body ev rt eng (t + w) pkt st = Raised e st'"
  shows "DetectionEngine_run ev rt eng stop_event t st (Got w pkt dur # rest) =
           Crashed e (t + w + dur) st' rest"
  using assms by simp

lemma loop_body_error_item:
  assumes "truthy (dict_get d ''__error__'' PNone)"
  shows "loop_body ev rt eng now (Dict d) st =
           Continue (st\<lparr>alerts_log := alerts_log st @ [SnifferError (dict_get d ''__error__'' PNone)]\<rparr>)"
  using assms by (simp add: loop_body_def log_alert_def)

section \<open>C6: an acquisition-error item\<close>

text \<open>
  Claim C6. An item that is an acquisition-error signal (a dict with a truthy
  \<^verbatim>\<open>__error__\<close> entry, as the sniffer puts it) makes the consumer append exactly one
  sniffer-error entry, with the message, to the alert log. The classifier and the
  mitigation functions are not called for it, and the loop goes on with the next call of
  \<^verbatim>\<open>get\<close> (unless the stop event was already set when the loop came to the item).
\<close>

theorem C6_sniffer_error_logged:
  assumes "truthy (dict_get d ''__error__'' PNone)"
  shows "loop_body ev rt eng now (Dict d) st =
           Continue (st\<lparr>alerts_log := alerts_log st @ [SnifferError (dict_get d ''__error__'' PNone)]\<rparr>)
       \<and> calls (outcome_state (loop_body ev rt eng now (Dict d) st)) = calls st
       \<and> DetectionEngine_run ev rt eng stop_event t st (Got w (Dict d) dur # rest) =
           (if is_set stop_event t then Exited t st (Got w (Dict d) dur # rest)
            else DetectionEngine_run ev rt eng stop_event (t + w + dur)
                   (st\<lparr>alerts_log := alerts_log st @ [SnifferError (dict_get d ''__error__'' PNone)]\<rparr>)
                   rest)"
proof (intro conjI)
  show "loop_body ev rt eng now (Dict d) st =
           Continue (st\<lparr>alerts_log := alerts_log st @ [SnifferError (dict_get d ''__error__'' PNone)]\<rparr>)"
    by (rule loop_body_error_item [OF assms])
  show "calls (outcome_state (loop_body ev rt eng now (Dict d) st)) = calls st"
    by (simp add: loop_body_error_item [OF assms])
  show "DetectionEngine_run ev rt eng stop_event t st (Got w (Dict d) dur # rest) =
           (if is_set stop_event t then Exited t st (Got w (Dict d) dur # rest)
            else DetectionEngine_run ev rt eng stop_event (t + w + dur)
                   (st\<lparr>alerts_log := alerts_log st @ [SnifferError (dict_get d ''__error__'' PNone)]\<rparr>)
                   rest)"
  proof (cases "is_set stop_event t")
    case True
    then show ?thesis by (simp only: run_exits_when_set if_True)
  next
    case False
    then show ?thesis
      by (simp only: run_continues [OF False loop_body_error_item [OF assms]] if_False)
  qed
qed

theorem C6_sniffer_error_logged_witness:
  "loop_body raising_classifier_env utc_runtime demo_engine 0
      (error_item ''live mode requires iface'') empty_state =
     Continue \<lparr>alerts_log = [SnifferError (PStr ''live mode requires iface'')], calls = []\<rparr>
   \<and> DetectionEngine_run raising_classifier_env utc_runtime demo_engine None 0 empty_state
       [Got 0 (error_item ''live mode requires iface'') 0] =
     Waiting 0 \<lparr>alerts_log = [SnifferError (PStr ''live mode requires iface'')], calls = []\<rparr>"
proof -
  have err: "truthy (dict_get [''__error__'' \<mapsto> PStr ''live mode requires iface''] ''__error__'' PNone)"
    by (simp add: dict_get_def)
  have idle: "\<not> is_set None 0"
    by (simp add: is_set_def)
  from C6_sniffer_error_logged [where st = empty_state and stop_event = None and t = 0
      and w = 0 and dur = 0 and rest = "[]" and now = 0 and ev = raising_classifier_env
      and rt = utc_runtime and eng = demo_engine, OF err]
  have a: "loop_body raising_classifier_env utc_runtime demo_engine 0
      (error_item ''live mode requires iface'') empty_state =
     Continue \<lparr>alerts_log = [SnifferError (PStr ''live mode requires iface'')], calls = []\<rparr>"
    and b: "DetectionEngine_run raising_classifier_env utc_runtime demo_engine None 0 empty_state
       [Got 0 (error_item ''live mode requires iface'') 0] =
      DetectionEngine_run raising_classifier_env utc_runtime demo_engine None 0
       \<lparr>alerts_log = [SnifferError (PStr ''live mode requires iface'')], calls = []\<rparr> []"
    by (simp_all only: error_item_def empty_state_def dict_get_def idle if_False
        state.simps append_Nil add_0 option.simps fun_upd_same)
  have c: "DetectionEngine_run raising_classifier_env utc_runtime demo_engine None 0
       \<lparr>alerts_log = [SnifferError (PStr ''live mode requires iface'')], calls = []\<rparr> [] =
     Waiting 0 \<lparr>alerts_log = [SnifferError (PStr ''live mode requires iface'')], calls = []\<rparr>"
    by (simp add: idle)
  from a b c show ?thesis by (simp only:) 
qed

section \<open>C10: the address fields of the feature record\<close>

text \<open>
  Claim C10, as the code has it. When \<^verbatim>\<open>extract_features\<close> returns, each address field
  is \<^verbatim>\<open>"0.0.0.0"\<close> when its key is absent from the packet dict and the value found under
  the key, unchanged, when it is present. So the mitigation target \<^verbatim>\<open>src_ip or dst_ip\<close>
  is truthy exactly when one of the two keys is absent or holds a truthy value.
\<close>

theorem C10_address_fields:
  assumes "extract_features rt now d = Inr f"
  shows "src_ip f = (case d ''src_ip'' of None \<Rightarrow> PStr ''0.0.0.0'' | Some v \<Rightarrow> v)
       \<and> dst_ip f = (case d ''dst_ip'' of None \<Rightarrow> PStr ''0.0.0.0'' | Some v \<Rightarrow> v)
       \<and> truthy (py_or (src_ip f) (dst_ip f)) =
           ((case d ''src_ip'' of None \<Rightarrow> True | Some v \<Rightarrow> truthy v)
            \<or> (case d ''dst_ip'' of None \<Rightarrow> True | Some v \<Rightarrow> truthy v))"
proof -
  from assms have s: "src_ip f = dict_get d ''src_ip'' (PStr ''0.0.0.0'')"
    and t: "dst_ip f = dict_get d ''dst_ip'' (PStr ''0.0.0.0'')"
    by (auto simp add: extract_features_def Let_def split: sum.splits)
  show ?thesis
    unfolding s t by (simp add: dict_get_def py_or_def split: option.splits)
qed

theorem C10_address_fields_witness:
  "src_ip features_4444 = PStr ''192.0.2.7'' \<and> dst_ip features_4444 = PStr ''198.51.100.9''
   \<and> truthy (py_or (src_ip features_4444) (dst_ip features_4444))"
  using C10_address_fields [OF extract_pkt_4444]
  by (simp add: pkt_4444_def py_or_def)

text \<open>
  The claim as stated fails on a dict that has both keys with values that are not
  addresses (\<^verbatim>\<open>None\<close> and the empty string): the fields are not non-empty strings and
  the mitigation target is the empty string.
\<close>

theorem C10_counterexample:
  "extract_features utc_runtime 0 pkt_no_address = Inr features_no_address
   \<and> src_ip features_no_address = PNone
   \<and> dst_ip features_no_address = PStr ''''
   \<and> \<not> truthy (py_or (src_ip features_no_address) (dst_ip features_no_address))"
  by (simp add: extract_pkt_no_address features_no_address_def py_or_def)

section \<open>C4: the queue between the producer and the consumer\<close>

lemma put_all_unbounded:
  "maxsize q \<le> 0 \<Longrightarrow> put_all q xs = Some (q\<lparr>queued := queued q @ xs\<rparr>)"
proof (induction xs arbitrary: q)
  case Nil
  then show ?case by simp
next
  case (Cons x xs)
  from Cons.prems have "put q x = Some (q\<lparr>queued := queued q @ [x]\<rparr>)"
    by (simp add: put_def full_def)
  moreover from Cons.prems have "maxsize (q\<lparr>queued := queued q @ [x]\<rparr>) \<le> 0"
    by simp
  ultimately show ?case
    using Cons.IH [of "q\<lparr>queued := queued q @ [x]\<rparr>"] by simp
qed

lemma simulate_loop_never_stopped:
  "simulate_loop None t out dws = Running (out @ map (\<lambda>dr. Dict (make_synthetic_packet dr)) dws)"
  by (induction dws arbitrary: t out) (simp_all add: is_set_def)

text \<open>
  Claim C4, as the code has it. The queue that \<^verbatim>\<open>main\<close> creates has no capacity
  (\<^verbatim>\<open>queue.Queue()\<close>, so \<^verbatim>\<open>maxsize\<close> is 0): it is never full, a \<^verbatim>\<open>put\<close> never blocks
  and never drops, and after any sequence of pushes with no receive the queue holds all
  of them. In the simulate mode the producer, while the stop event is not set, puts one
  packet per iteration, so the queue grows with the number of iterations.
\<close>

theorem C4_queue_unbounded:
  "put_all pkt_q xs = Some \<lparr>maxsize = 0, queued = xs\<rparr>
   \<and> \<not> full \<lparr>maxsize = 0, queued = xs\<rparr>
   \<and> start_sniff_run sc ''simulate'' iface pcap None clock dws =
       Running (map (\<lambda>dr. Dict (make_synthetic_packet dr)) dws)"
proof (intro conjI)
  have "maxsize pkt_q \<le> 0"
    by (simp add: pkt_q_def Queue_def)
  from put_all_unbounded [OF this, of xs]
  show "put_all pkt_q xs = Some \<lparr>maxsize = 0, queued = xs\<rparr>"
    by (simp add: pkt_q_def Queue_def)
  show "\<not> full \<lparr>maxsize = 0, queued = xs\<rparr>"
    by (simp add: full_def)
  show "start_sniff_run sc ''simulate'' iface pcap None clock dws =
       Running (map (\<lambda>dr. Dict (make_synthetic_packet dr)) dws)"
    by (simp add: start_sniff_run_def simulate_loop_never_stopped)
qed

text \<open>
  The claim as stated fails: the queue of \<^verbatim>\<open>main\<close> has \<^verbatim>\<open>maxsize\<close> 0, and no number
  bounds the length it can reach.
\<close>

theorem C4_counterexample:
  "maxsize pkt_q = 0
   \<and> \<not> (\<exists>cap. \<forall>xs q. put_all pkt_q xs = Some q \<longrightarrow> length (queued q) \<le> cap)"
proof (intro conjI notI)
  show "maxsize pkt_q = 0"
    by (simp add: pkt_q_def Queue_def)
next
  assume "\<exists>cap. \<forall>xs q. put_all pkt_q xs = Some q \<longrightarrow> length (queued q) \<le> cap"
  then obtain cap where bound: "\<And>xs q. put_all pkt_q xs = Some q \<Longrightarrow> length (queued q) \<le> cap"
    by blast
  have "maxsize pkt_q \<le> 0"
    by (simp add: pkt_q_def Queue_def)
  from put_all_unbounded [OF this, of "replicate (Suc cap) (Obj PNone)"]
  have "put_all pkt_q (replicate (Suc cap) (Obj PNone)) =
          Some (pkt_q\<lparr>queued := queued pkt_q @ replicate (Suc cap) (Obj PNone)\<rparr>)" .
  from bound [OF this] show False
    by (simp add: pkt_q_def Queue_def)
qed

section \<open>C7: a capture file that cannot be read\<close>

lemma error_item_truthy:
  "m \<noteq> [] \<Longrightarrow> error_item m = Dict d \<Longrightarrow> truthy (dict_get d ''__error__'' PNone)"
  by (auto simp add: error_item_def dict_get_def)

lemma loop_body_sniffer_error:
  "m \<noteq> [] \<Longrightarrow> loop_body ev rt eng now (error_item m) st =
     Continue (st\<lparr>alerts_log := alerts_log st @ [SnifferError (PStr m)]\<rparr>)"
  by (simp add: error_item_def loop_body_def log_alert_def dict_get_def)

lemma run_only_error_items:
  "received sched = map error_item ms \<Longrightarrow> [] \<notin> set ms \<Longrightarrow>
     calls (result_state (DetectionEngine_run ev rt eng stop_event t st sched)) = calls st"
proof (induction sched arbitrary: t st ms)
  case Nil
  then show ?case by simp
next
  case (Cons r rest)
  show ?case
  proof (cases "is_set stop_event t")
    case True
    then show ?thesis by (simp add: run_exits_when_set)
  next
    case False
    show ?thesis
    proof (cases r)
      case Empty
      with Cons.prems have "received rest = map error_item ms" by simp
      from Cons.IH [OF this Cons.prems(2)] False Empty show ?thesis by simp
    next
      case (Got w pkt dur)
      with Cons.prems obtain m ms' where ms: "ms = m # ms'" and pkt: "pkt = error_item m"
        and rest: "received rest = map error_item ms'"
        by (cases ms) auto
      from ms Cons.prems(2) have ne: "m \<noteq> []" and ne': "[] \<notin> set ms'" by auto
      have "DetectionEngine_run ev rt eng stop_event t st (r # rest) =
              DetectionEngine_run ev rt eng stop_event (t + w + dur)
                (st\<lparr>alerts_log := alerts_log st @ [SnifferError (PStr m)]\<rparr>) rest"
        unfolding Got pkt by (rule run_continues [OF False loop_body_sniffer_error [OF ne]])
      with Cons.IH [OF rest ne'] show ?thesis by simp
    qed
  qed
qed

lemma run_error_items_logged:
  "received sched = map error_item ms \<Longrightarrow> [] \<notin> set ms \<Longrightarrow>
     alerts_log (result_state (DetectionEngine_run ev rt eng None t st sched)) =
       alerts_log st @ map (\<lambda>m. SnifferError (PStr m)) ms"
proof (induction sched arbitrary: t st ms)
  case Nil
  then show ?case by (simp add: is_set_def)
next
  case (Cons r rest)
  have idle: "\<not> is_set None t"
    by (simp add: is_set_def)
  show ?case
  proof (cases r)
    case Empty
    with Cons.prems have "received rest = map error_item ms" by simp
    from Cons.IH [OF this Cons.prems(2)] idle Empty show ?thesis by simp
  next
    case (Got w pkt dur)
    with Cons.prems obtain m ms' where ms: "ms = m # ms'" and pkt: "pkt = error_item m"
      and rest: "received rest = map error_item ms'"
      by (cases ms) auto
    from ms Cons.prems(2) have ne: "m \<noteq> []" and ne': "[] \<notin> set ms'" by auto
    have "DetectionEngine_run ev rt eng None t st (r # rest) =
            DetectionEngine_run ev rt eng None (t + w + dur)
              (st\<lparr>alerts_log := alerts_log st @ [SnifferError (PStr m)]\<rparr>) rest"
      unfolding Got pkt by (rule run_continues [OF idle loop_body_sniffer_error [OF ne]])
    with Cons.IH [OF rest ne'] ms show ?thesis by simp
  qed
qed

text \<open>
  Claim C7. In the pcap mode, with scapy importable and a path given, when \<^verbatim>\<open>rdpcap\<close>
  raises (the file does not exist or cannot be parsed), the producer thread puts exactly
  one item into the queue, the dict \<^verbatim>\<open>{"__error__": "failed to read pcap: ..."}\<close>, and
  returns. The consumer handles this dict as an acquisition error: it appends the
  sniffer-error entry with the message to the alert log. A consumer that receives just
  this item, however its calls of \<^verbatim>\<open>get\<close> are timed, makes no call of the classifier
  or of the mitigation functions, and, when it is not stopped, ends with exactly that
  one entry added to the log.
\<close>

theorem C7_missing_capture_one_error:
  assumes "import_scapy sc = None"
    and "path \<noteq> []"
    and "rdpcap sc path = Inl e"
  shows "start_sniff_run sc ''pcap'' iface (Some path) stop_event clock dws =
           Returned [Dict [''__error__'' \<mapsto> PStr (''failed to read pcap: '' @ exn_msg e)]]
       \<and> loop_body ev rt eng now
             (Dict [''__error__'' \<mapsto> PStr (''failed to read pcap: '' @ exn_msg e)]) st =
           Continue (st\<lparr>alerts_log := alerts_log st @
             [SnifferError (PStr (''failed to read pcap: '' @ exn_msg e))]\<rparr>)
       \<and> (received sched =
             [Dict [''__error__'' \<mapsto> PStr (''failed to read pcap: '' @ exn_msg e)]] \<longrightarrow>
            calls (result_state (DetectionEngine_run ev rt eng engine_stop t st sched)) =
              calls st
          \<and> classifier_calls (calls (result_state
              (DetectionEngine_run ev rt eng engine_stop t st sched))) =
            classifier_calls (calls st)
          \<and> alerts_log (result_state (DetectionEngine_run ev rt eng None t st sched)) =
              alerts_log st @ [SnifferError (PStr (''failed to read pcap: '' @ exn_msg e))])"
proof (intro conjI impI)
  from assms
  show "start_sniff_run sc ''pcap'' iface (Some path) stop_event clock dws =
           Returned [Dict [''__error__'' \<mapsto> PStr (''failed to read pcap: '' @ exn_msg e)]]"
    by (simp add: start_sniff_run_def error_item_def)
next
  have "''failed to read pcap: '' @ exn_msg e \<noteq> []"
    by simp
  from loop_body_sniffer_error [OF this]
  show "loop_body ev rt eng now
             (Dict [''__error__'' \<mapsto> PStr (''failed to read pcap: '' @ exn_msg e)]) st =
           Continue (st\<lparr>alerts_log := alerts_log st @
             [SnifferError (PStr (''failed to read pcap: '' @ exn_msg e))]\<rparr>)"
    by (simp only: error_item_def)
next
  assume "received sched =
      [Dict [''__error__'' \<mapsto> PStr (''failed to read pcap: '' @ exn_msg e)]]"
  then have only: "received sched = map error_item [''failed to read pcap: '' @ exn_msg e]"
    by (simp add: error_item_def)
  from run_only_error_items [OF only]
  show same: "calls (result_state (DetectionEngine_run ev rt eng engine_stop t st sched)) =
      calls st"
    by simp
  then show "classifier_calls (calls (result_state
          (DetectionEngine_run ev rt eng engine_stop t st sched))) =
        classifier_calls (calls st)"
    by simp
  from run_error_items_logged [OF only]
  show "alerts_log (result_state (DetectionEngine_run ev rt eng None t st sched)) =
      alerts_log st @ [SnifferError (PStr (''failed to read pcap: '' @ exn_msg e))]"
    by simp
qed

theorem C7_missing_capture_one_error_witness:
  "start_sniff_run (capture_library []) ''pcap'' None (Some ''missing.pcap'') None (\<lambda>i. 0) [] =
     Returned [Dict [''__error__'' \<mapsto> PStr ''failed to read pcap: No such file or directory'']]
   \<and> result_state
        (DetectionEngine_run stub_env utc_runtime demo_engine None 0 empty_state
           [Empty, Got 0
              (Dict [''__error__'' \<mapsto> PStr ''failed to read pcap: No such file or directory''])
              0]) =
      \<lparr>alerts_log = [SnifferError (PStr ''failed to read pcap: No such file or directory'')],
       calls = []\<rparr>"
proof -
  have a: "import_scapy (capture_library []) = None"
    by (simp add: capture_library_def)
  have b: "''missing.pcap'' \<noteq> []"
    by simp
  have c: "rdpcap (capture_library []) ''missing.pcap'' =
      Inl (Exn OSError ''No such file or directory'')"
    by (simp add: capture_library_def)
  have d: "received [Empty, Got 0
      (Dict [''__error__'' \<mapsto> PStr ''failed to read pcap: No such file or directory'']) 0] =
      [Dict [''__error__'' \<mapsto> PStr ''failed to read pcap: No such file or directory'']]"
    by simp
  from C7_missing_capture_one_error [OF a b c, where st = empty_state and engine_stop = None
      and ev = stub_env and rt = utc_runtime and eng = demo_engine and t = 0
      and sched = "[Empty, Got 0
        (Dict [''__error__'' \<mapsto> PStr ''failed to read pcap: No such file or directory'']) 0]"]
    d
  have "start_sniff_run (capture_library []) ''pcap'' None (Some ''missing.pcap'') None (\<lambda>i. 0) [] =
     Returned [Dict [''__error__'' \<mapsto> PStr ''failed to read pcap: No such file or directory'']]"
    and "calls (result_state
        (DetectionEngine_run stub_env utc_runtime demo_engine None 0 empty_state
           [Empty, Got 0
              (Dict [''__error__'' \<mapsto> PStr ''failed to read pcap: No such file or directory''])
              0])) = []"
    and "alerts_log (result_state
        (DetectionEngine_run stub_env utc_runtime demo_engine None 0 empty_state
           [Empty, Got 0
              (Dict [''__error__'' \<mapsto> PStr ''failed to read pcap: No such file or directory''])
              0])) = [SnifferError (PStr ''failed to read pcap: No such file or directory'')]"
    by (simp_all add: empty_state_def)
  then show ?thesis
    by (cases "result_state
        (DetectionEngine_run stub_env utc_runtime demo_engine None 0 empty_state
           [Empty, Got 0
              (Dict [''__error__'' \<mapsto> PStr ''failed to read pcap: No such file or directory''])
              0])") simp
qed

section \<open>C9: replaying a capture file\<close>

lemma scapy_to_dict_None_iff: "(scapy_to_dict now p = None) = (layer_IP p = None)"
  by (simp add: scapy_to_dict_def split: prod.splits option.splits)

lemma pcap_loop_replay:
  "pcap_loop stop_event clock i ps =
     map Dict (List.map_filter (\<lambda>(j, p). scapy_to_dict (clock j) p)
       (takeWhile (\<lambda>(j, p). \<not> is_set stop_event (clock j)) (enumerate i ps)))"
  by (induction ps arbitrary: i) (simp_all add: map_filter_simps split: option.splits)

lemma takeWhile_always: "takeWhile (\<lambda>x. True) xs = xs"
  by (induction xs) simp_all

lemma replay_count:
  "length (List.map_filter (\<lambda>(j, p). scapy_to_dict (clock j) p) (enumerate i ps)) =
     length (filter (\<lambda>p. layer_IP p \<noteq> None) ps)"
proof (induction ps arbitrary: i)
  case Nil
  then show ?case by (simp add: map_filter_simps)
next
  case (Cons p ps)
  show ?case
  proof (cases "layer_IP p")
    case None
    then have "scapy_to_dict (clock i) p = None"
      by (simp add: scapy_to_dict_None_iff)
    with None Cons.IH [of "Suc i"] show ?thesis
      by (simp add: map_filter_simps)
  next
    case (Some ip)
    then have "scapy_to_dict (clock i) p \<noteq> None"
      by (simp add: scapy_to_dict_None_iff)
    then obtain d where "scapy_to_dict (clock i) p = Some d"
      by blast
    with Some Cons.IH [of "Suc i"] show ?thesis
      by (simp add: map_filter_simps)
  qed
qed

lemma scapy_to_dict_tcp_segment: "scapy_to_dict 3600 tcp_segment = Some pkt_4444"
  by (simp add: scapy_to_dict_def tcp_segment_def pkt_4444_def py_or_def)

lemma scapy_to_dict_arp_frame: "scapy_to_dict now arp_frame = None"
  by (simp add: scapy_to_dict_def arp_frame_def)

text \<open>
  Claim C9, as the code has it. In the pcap mode, with scapy importable and a path given,
  when \<^verbatim>\<open>rdpcap\<close> returns the records of the file, the producer goes through them in
  order up to the first one at which it sees the stop event set, puts the dict of each
  record that \<^verbatim>\<open>_scapy_to_dict\<close> converts, once, and returns. \<^verbatim>\<open>_scapy_to_dict\<close> converts
  exactly the records that have an IP layer; the others are left out without a trace. So
  with no stop the number of items put is the number of records with an IP layer.
\<close>

theorem C9_pcap_replay:
  assumes "import_scapy sc = None"
    and "path \<noteq> []"
    and "rdpcap sc path = Inr packets"
  shows "start_sniff_run sc ''pcap'' iface (Some path) stop_event clock dws =
           Returned (map Dict (List.map_filter (\<lambda>(j, p). scapy_to_dict (clock j) p)
             (takeWhile (\<lambda>(j, p). \<not> is_set stop_event (clock j)) (enumerate 0 packets))))
       \<and> (scapy_to_dict now p = None) = (layer_IP p = None)
       \<and> length (sniffed (start_sniff_run sc ''pcap'' iface (Some path) None clock dws)) =
           length (filter (\<lambda>p. layer_IP p \<noteq> None) packets)"
proof (intro conjI)
  from assms
  show "start_sniff_run sc ''pcap'' iface (Some path) stop_event clock dws =
           Returned (map Dict (List.map_filter (\<lambda>(j, p). scapy_to_dict (clock j) p)
             (takeWhile (\<lambda>(j, p). \<not> is_set stop_event (clock j)) (enumerate 0 packets))))"
    by (simp add: start_sniff_run_def pcap_loop_replay)
  show "(scapy_to_dict now p = None) = (layer_IP p = None)"
    by (rule scapy_to_dict_None_iff)
  from assms
  have "sniffed (start_sniff_run sc ''pcap'' iface (Some path) None clock dws) =
          map Dict (List.map_filter (\<lambda>(j, p). scapy_to_dict (clock j) p) (enumerate 0 packets))"
    by (simp add: start_sniff_run_def pcap_loop_replay is_set_def split_def takeWhile_always)
  then
  show "length (sniffed (start_sniff_run sc ''pcap'' iface (Some path) None clock dws)) =
           length (filter (\<lambda>p. layer_IP p \<noteq> None) packets)"
    by (simp only: length_map replay_count)
qed

theorem C9_pcap_replay_witness:
  "start_sniff_run (capture_library [tcp_segment, arp_frame, tcp_segment]) ''pcap'' None
      (Some ''capture.pcap'') None (\<lambda>i. 3600) [] =
     Returned [Dict pkt_4444, Dict pkt_4444]
   \<and> length (sniffed (start_sniff_run (capture_library [tcp_segment, arp_frame, tcp_segment])
        ''pcap'' None (Some ''capture.pcap'') None (\<lambda>i. 3600) [])) = 2"
proof -
  have a: "import_scapy (capture_library [tcp_segment, arp_frame, tcp_segment]) = None"
    by (simp add: capture_library_def)
  have b: "''capture.pcap'' \<noteq> []"
    by simp
  have c: "rdpcap (capture_library [tcp_segment, arp_frame, tcp_segment]) ''capture.pcap'' =
      Inr [tcp_segment, arp_frame, tcp_segment]"
    by (simp add: capture_library_def)
  have ip: "layer_IP tcp_segment \<noteq> None" "layer_IP arp_frame = None"
    by (simp_all add: tcp_segment_def arp_frame_def)
  from C9_pcap_replay [OF a b c, where stop_event = None and clock = "\<lambda>i. 3600"
      and iface = None and dws = "[]"]
  show ?thesis
    by (simp add: is_set_def enumerate_eq_zip map_filter_simps scapy_to_dict_tcp_segment
        scapy_to_dict_arp_frame ip upt_rec)
qed

text \<open>
  The claim as stated fails on a capture file that holds one ARP frame: the file is read,
  and the producer returns without having put anything.
\<close>

theorem C9_counterexample:
  "rdpcap (capture_library [arp_frame]) ''capture.pcap'' = Inr [arp_frame]
   \<and> start_sniff_run (capture_library [arp_frame]) ''pcap'' None (Some ''capture.pcap'') None
       (\<lambda>i. 0) [] = Returned []"
  by (simp add: start_sniff_run_def capture_library_def is_set_def scapy_to_dict_arp_frame)

section \<open>C8: stopping the consumer\<close>

lemma run_idle_until_stop:
  "t \<le> s \<Longrightarrow> s - t \<le> real n \<Longrightarrow>
     DetectionEngine_run ev rt eng (Some s) t st (replicate n Empty) =
       Exited (t + real (nat \<lceil>s - t\<rceil>)) st (replicate (n - nat \<lceil>s - t\<rceil>) Empty)"
proof (induction n arbitrary: t)
  case 0
  then have "s = t" by simp
  then show ?case by (simp add: is_set_def)
next
  case (Suc n)
  show ?case
  proof (cases "s \<le> t")
    case True
    with Suc.prems have "s = t" by simp
    then show ?thesis by (simp add: is_set_def)
  next
    case False
    then have lt: "t < s" by simp
    have step: "DetectionEngine_run ev rt eng (Some s) t st (replicate (Suc n) Empty) =
        DetectionEngine_run ev rt eng (Some s) (t + 1) st (replicate n Empty)"
      using False by (simp add: is_set_def get_timeout_def)
    show ?thesis
    proof (cases "t + 1 \<le> s")
      case True
      from Suc.prems have "s - (t + 1) \<le> real n" by simp
      from Suc.IH [OF True this]
      have ih: "DetectionEngine_run ev rt eng (Some s) (t + 1) st (replicate n Empty) =
          Exited (t + 1 + real (nat \<lceil>s - (t + 1)\<rceil>)) st
            (replicate (n - nat \<lceil>s - (t + 1)\<rceil>) Empty)" .
      have shift: "\<lceil>s - t\<rceil> = 1 + \<lceil>s - (t + 1)\<rceil>"
        by (simp add: ceiling_eq_iff) linarith
      from True have nonneg: "0 \<le> \<lceil>s - (t + 1)\<rceil>"
        by simp
      have k: "nat \<lceil>s - t\<rceil> = Suc (nat \<lceil>s - (t + 1)\<rceil>)"
        by (simp only: shift Suc_nat_eq_nat_zadd1 [OF nonneg])
      show ?thesis
        unfolding step ih k by simp
    next
      case False
      with lt have "\<lceil>s - t\<rceil> = 1"
        by (simp add: ceiling_eq_iff)
      then have k: "nat \<lceil>s - t\<rceil> = Suc 0"
        by simp
      from False have "is_set (Some s) (t + 1)"
        by (simp add: is_set_def)
      from run_exits_when_set [OF this]
      have "DetectionEngine_run ev rt eng (Some s) (t + 1) st (replicate n Empty) =
          Exited (t + 1) st (replicate n Empty)" .
      then show ?thesis
        unfolding step k by simp
    qed
  qed
qed

text \<open>
  Claim C8, as the code has it. Let \<^verbatim>\<open>stop()\<close> be called at time \<open>s\<close>. The loop
  reads the event only at its head. A loop that comes to its head at or after \<open>s\<close>
  exits there: it makes no further call of \<^verbatim>\<open>get\<close> and consumes nothing, whatever is
  in the queue; the same holds for a thread started again on the engine, since nothing
  clears the event. A loop that is idle (every \<^verbatim>\<open>get\<close> ends in \<^verbatim>\<open>queue.Empty\<close>
  after the timeout) exits at the first loop head at or after \<open>s\<close>, which comes less
  than one timeout after \<open>s\<close>. A loop that is inside \<^verbatim>\<open>get\<close> or is handling an item
  when the event is set completes that receive and the handling of its item, and exits
  at the next loop head, leaving the rest of the queue alone.
\<close>

theorem C8_stop_ends_loop:
  "(s \<le> t \<longrightarrow>
      DetectionEngine_run ev rt eng (DetectionEngine_stop s None) t st sched = Exited t st sched)
   \<and> (t \<le> s \<longrightarrow> s - t \<le> real n * get_timeout \<longrightarrow>
        DetectionEngine_run ev rt eng (DetectionEngine_stop s None) t st (replicate n Empty) =
          Exited (t + real (nat \<lceil>(s - t) / get_timeout\<rceil>) * get_timeout) st
            (replicate (n - nat \<lceil>(s - t) / get_timeout\<rceil>) Empty)
        \<and> s \<le> t + real (nat \<lceil>(s - t) / get_timeout\<rceil>) * get_timeout
        \<and> t + real (nat \<lceil>(s - t) / get_timeout\<rceil>) * get_timeout < s + get_timeout)
   \<and> (t < s \<longrightarrow> s \<le> t + w + dur \<longrightarrow>
        DetectionEngine_run ev rt eng (DetectionEngine_stop s None) t st (Got w pkt dur # rest) =
          (case loop_body ev rt eng (t + w) pkt st of
             Continue st' \<Rightarrow> Exited (t + w + dur) st' rest
           | Raised e st' \<Rightarrow> Crashed e (t + w + dur) st' rest))"
proof (intro conjI impI)
  assume "s \<le> t"
  then have "is_set (DetectionEngine_stop s None) t"
    by (simp add: DetectionEngine_stop_def set_event_def is_set_def)
  then show "DetectionEngine_run ev rt eng (DetectionEngine_stop s None) t st sched =
      Exited t st sched"
    by (rule run_exits_when_set)
next
  assume before: "t \<le> s" and enough: "s - t \<le> real n * get_timeout"
  from enough have "s - t \<le> real n"
    by (simp add: get_timeout_def)
  from run_idle_until_stop [OF before this]
  show "DetectionEngine_run ev rt eng (DetectionEngine_stop s None) t st (replicate n Empty) =
          Exited (t + real (nat \<lceil>(s - t) / get_timeout\<rceil>) * get_timeout) st
            (replicate (n - nat \<lceil>(s - t) / get_timeout\<rceil>) Empty)"
    by (simp add: DetectionEngine_stop_def set_event_def get_timeout_def)
next
  assume before: "t \<le> s"
  then have "0 \<le> \<lceil>s - t\<rceil>"
    by simp
  then have eq: "real (nat \<lceil>s - t\<rceil>) = of_int \<lceil>s - t\<rceil>"
    by simp
  have "s - t \<le> of_int \<lceil>s - t\<rceil>"
    by (rule le_of_int_ceiling)
  then show "s \<le> t + real (nat \<lceil>(s - t) / get_timeout\<rceil>) * get_timeout"
    unfolding get_timeout_def div_by_1 mult_1_right eq by linarith
next
  assume before: "t \<le> s"
  then have "0 \<le> \<lceil>s - t\<rceil>"
    by simp
  then have eq: "real (nat \<lceil>s - t\<rceil>) = of_int \<lceil>s - t\<rceil>"
    by simp
  have "of_int \<lceil>s - t\<rceil> - 1 < s - t"
    using ceiling_correct [of "s - t"] by (rule conjunct1)
  then show "t + real (nat \<lceil>(s - t) / get_timeout\<rceil>) * get_timeout < s + get_timeout"
    unfolding get_timeout_def div_by_1 mult_1_right eq by linarith
next
  assume running: "t < s" and set_by_then: "s \<le> t + w + dur"
  from running have now: "\<not> is_set (DetectionEngine_stop s None) t"
    by (simp add: DetectionEngine_stop_def set_event_def is_set_def)
  from set_by_then have later: "is_set (DetectionEngine_stop s None) (t + w + dur)"
    by (simp add: DetectionEngine_stop_def set_event_def is_set_def)
  show "DetectionEngine_run ev rt eng (DetectionEngine_stop s None) t st (Got w pkt dur # rest) =
          (case loop_body ev rt eng (t + w) pkt st of
             Continue st' \<Rightarrow> Exited (t + w + dur) st' rest
           | Raised e st' \<Rightarrow> Crashed e (t + w + dur) st' rest)"
  proof (cases "loop_body ev rt eng (t + w) pkt st")
    case (Continue st')
    from run_continues [OF now Continue] run_exits_when_set [OF later] Continue
    show ?thesis by simp
  next
    case (Raised e st')
    from run_crashes [OF now Raised] Raised
    show ?thesis by simp
  qed
qed

theorem C8_stop_ends_loop_witness:
  "DetectionEngine_run stub_env utc_runtime demo_engine (DetectionEngine_stop (5 / 2) None) 3
      empty_state [Got 0 (Dict pkt_4444) 0] =
     Exited 3 empty_state [Got 0 (Dict pkt_4444) 0]
   \<and> DetectionEngine_run stub_env utc_runtime demo_engine (DetectionEngine_stop (5 / 2) None) 0
      empty_state [Empty, Empty, Empty, Empty, Empty] =
     Exited 3 empty_state [Empty, Empty]
   \<and> DetectionEngine_run stub_env utc_runtime demo_engine (DetectionEngine_stop (5 / 2) None) 2
      empty_state [Got (1 / 4) (Dict pkt_80) (1 / 2), Got 0 (Dict pkt_4444) 0] =
     Exited (11 / 4) \<lparr>alerts_log = [], calls = [PredictProba features_80]\<rparr>
       [Got 0 (Dict pkt_4444) 0]"
proof -
  from C8_stop_ends_loop [where s = "5 / 2" and t = 3 and ev = stub_env and rt = utc_runtime
      and eng = demo_engine and st = empty_state and sched = "[Got 0 (Dict pkt_4444) 0]"
      and n = 0]
  have a: "DetectionEngine_run stub_env utc_runtime demo_engine (DetectionEngine_stop (5 / 2) None) 3
      empty_state [Got 0 (Dict pkt_4444) 0] =
     Exited 3 empty_state [Got 0 (Dict pkt_4444) 0]"
    by simp
  have five: "replicate 5 Empty = [Empty, Empty, Empty, Empty, Empty]"
    and two: "replicate 2 Empty = [Empty, Empty]"
    by (simp_all add: numeral_eq_Suc)
  from C8_stop_ends_loop [where s = "5 / 2" and t = 0 and ev = stub_env and rt = utc_runtime
      and eng = demo_engine and st = empty_state and n = 5 and sched = "[]"]
  have b: "DetectionEngine_run stub_env utc_runtime demo_engine (DetectionEngine_stop (5 / 2) None) 0
      empty_state (replicate 5 Empty) = Exited 3 empty_state (replicate 2 Empty)"
    by (simp add: get_timeout_def)
  have body: "\<And>now. loop_body stub_env utc_runtime demo_engine now (Dict pkt_80) empty_state =
      Continue \<lparr>alerts_log = [], calls = [PredictProba features_80]\<rparr>"
    by (simp add: loop_body_packet [OF no_error_key_pkt_80 extract_pkt_80] detect_def
        record_call_def stub_env_def stub_classifier_def demo_engine_def empty_state_def
        features_80_def features_4444_def)
  from C8_stop_ends_loop [where s = "5 / 2" and t = 2 and ev = stub_env and rt = utc_runtime
      and eng = demo_engine and st = empty_state and n = 0 and sched = "[]" and w = "1 / 4"
      and dur = "1 / 2" and pkt = "Dict pkt_80" and rest = "[Got 0 (Dict pkt_4444) 0]"]
  have c: "DetectionEngine_run stub_env utc_runtime demo_engine (DetectionEngine_stop (5 / 2) None) 2
      empty_state [Got (1 / 4) (Dict pkt_80) (1 / 2), Got 0 (Dict pkt_4444) 0] =
     Exited (11 / 4) \<lparr>alerts_log = [], calls = [PredictProba features_80]\<rparr>
       [Got 0 (Dict pkt_4444) 0]"
    by (simp add: body DetectionEngine_stop_def set_event_def is_set_def)
  from a b c show ?thesis
    by (simp only: five two)
qed

text \<open>
  The claim as stated fails when an item arrives inside the call of \<^verbatim>\<open>get\<close> that is
  pending when the event is set: with \<^verbatim>\<open>stop()\<close> at 0.5 s, an item that arrives at
  0.8 s is still consumed, classified, mitigated and logged, and when its handling takes
  9.2 s the loop exits at 10 s, more than one timeout after the stop.
\<close>

theorem C8_counterexample:
  "DetectionEngine_run stub_env utc_runtime demo_engine (DetectionEngine_stop (1 / 2) None) 0
      empty_state [Got (4 / 5) (Dict pkt_4444) (46 / 5), Got 0 (Dict pkt_80) 0] =
     Exited 10
       \<lparr>alerts_log = [Alert (PStr ''192.0.2.7'') (PStr ''198.51.100.9'') (9 / 10) features_4444
                        (PStr ''iptables -A INPUT -j DROP'')],
        calls = [PredictProba features_4444, AddToBlocklist (PStr ''192.0.2.7''),
                 ApplyBlock (PStr ''192.0.2.7'') ''dry-run'']\<rparr>
       [Got 0 (Dict pkt_80) 0]
   \<and> \<not> (10 < 1 / 2 + get_timeout)"
  by (simp add: DetectionEngine_stop_def set_event_def is_set_def get_timeout_def
      loop_body_packet [OF no_error_key_pkt_4444 extract_pkt_4444] detect_def
      handle_mitigation_def record_call_def log_alert_def stub_env_def stub_classifier_def
      demo_engine_def empty_state_def features_4444_def py_or_def Let_def)

end
